theory Spec2Isabelle
  imports Main "HOL-Library.Sublist"
begin

section \<open>Strings\<close>

text \<open>
  A Python string is modelled by the list of the UTF-8 bytes of its text, a \<open>string\<close>
  (a lone surrogate, which Python admits, by the three bytes of its code point).
  On such lists equality and the substring test agree with Python's, which work on
  characters, and so do splitting at \<open>/\<close> and removing \<open>.yaml\<close>: the first byte of a character
  never occurs inside another character.  The two non-ASCII literals of the source (an
  em dash and an emoji) are written as their bytes.  The case conversions \<^verbatim>\<open>str.lower\<close> and
  \<^verbatim>\<open>str.upper\<close> follow the Unicode tables of the interpreter; they are not defined here
  but taken from the world the program runs in (\<open>str_lower\<close>, \<open>str_upper\<close> below).
\<close>

definition NL :: string where
  "NL = [CHR 0x0A]"

definition em_dash :: string where
  "em_dash = [CHR 0xE2, CHR 0x80, CHR 0x94]"

definition eye_emoji :: string where
  "eye_emoji = [CHR 0xF0, CHR 0x9F, CHR 0x91, CHR 0x81, CHR 0xEF, CHR 0xB8, CHR 0x8F]"

text \<open>\<^verbatim>\<open>k in q\<close> on strings: \<open>k\<close> occurs in \<open>q\<close> as a contiguous substring.\<close>

fun contains :: "string \<Rightarrow> string \<Rightarrow> bool" where
  "contains k [] = (k = [])"
| "contains k (c # cs) = (prefix k (c # cs) \<or> contains k cs)"

text \<open>\<^verbatim>\<open>sep.join(parts)\<close>.\<close>

fun join :: "string \<Rightarrow> string list \<Rightarrow> string" where
  "join sep [] = []"
| "join sep [x] = x"
| "join sep (x # y # ys) = x @ sep @ join sep (y # ys)"

text \<open>\<^verbatim>\<open>s.split(c)\<close> for a one-character separator; the result is never empty.\<close>

fun split_on :: "char \<Rightarrow> string \<Rightarrow> string list" where
  "split_on c [] = [[]]"
| "split_on c (x # xs) =
     (if x = c then [] # split_on c xs
      else (case split_on c xs of [] \<Rightarrow> [[x]] | p # ps \<Rightarrow> (x # p) # ps))"

text \<open>\<^verbatim>\<open>s.replace(pat, "")\<close> for a non-empty pattern: every occurrence, left to right.\<close>

function remove_all :: "string \<Rightarrow> string \<Rightarrow> string" where
  "remove_all pat [] = []"
| "remove_all pat (c # cs) =
     (if pat \<noteq> [] \<and> prefix pat (c # cs) then remove_all pat (drop (length pat) (c # cs))
      else c # remove_all pat cs)"
  by pat_completeness auto
termination
  by (relation "measure (\<lambda>(pat, s). length s)") auto

text \<open>\<^verbatim>\<open>str(n)\<close> for a natural number: its decimal digits.\<close>

definition digit_char :: "nat \<Rightarrow> char" where
  "digit_char d = ''0123456789'' ! d"

function str_nat :: "nat \<Rightarrow> string" where
  "str_nat n = (if n < 10 then [digit_char n] else str_nat (n div 10) @ [digit_char (n mod 10)])"
  by pat_completeness auto
termination
  by (relation "measure id") auto

declare str_nat.simps [simp del]

section \<open>Errors\<close>

text \<open>
  The exceptions the program can raise, as values.  \<open>ClientError\<close> stands for whatever the
  HTTP client raises (connection failure, time-out, undecodable body) and \<open>YAMLError\<close> for
  a parse failure of the YAML library; both carry the text \<^verbatim>\<open>str()\<close> gives for them.
\<close>

type_synonym path = "string list"

datatype error =
    ValueError string
  | RuntimeError string
  | KeyError string
  | IndexError string
  | AttributeError string
  | IsADirectoryError path
  | YAMLError string
  | ClientError string

text \<open>\<^verbatim>\<open>str(exc)\<close>, as the f-strings of the source render a caught exception.\<close>

definition render_path :: "path \<Rightarrow> string" where
  "render_path p = (if p = [] then ''/'' else concat (map (\<lambda>c. ''/'' @ c) p))"

fun str_error :: "error \<Rightarrow> string" where
  "str_error (ValueError m) = m"
| "str_error (RuntimeError m) = m"
| "str_error (KeyError k) = [CHR 0x27] @ k @ [CHR 0x27]"
| "str_error (IndexError m) = m"
| "str_error (AttributeError m) = m"
| "str_error (IsADirectoryError p) = ''[Errno 21] Is a directory: '' @ [CHR 0x27] @ render_path p @ [CHR 0x27]"
| "str_error (YAMLError m) = m"
| "str_error (ClientError m) = m"

text \<open>Sequencing of computations that may raise.\<close>

definition and_then :: "error + 'a \<Rightarrow> ('a \<Rightarrow> error + 'b) \<Rightarrow> error + 'b" where
  "and_then m f = (case m of Inl e \<Rightarrow> Inl e | Inr x \<Rightarrow> f x)"

section \<open>Ordered dictionaries\<close>

text \<open>
  A Python \<^verbatim>\<open>dict\<close> is an association list with distinct keys, in insertion order.
  \<open>dict_set\<close> is \<^verbatim>\<open>d[k] = v\<close>: an existing key keeps its position.
\<close>

fun dict_set :: "('k \<times> 'v) list \<Rightarrow> 'k \<Rightarrow> 'v \<Rightarrow> ('k \<times> 'v) list" where
  "dict_set [] k v = [(k, v)]"
| "dict_set ((k', v') # d) k v = (if k' = k then (k, v) # d else (k', v') # dict_set d k v)"

section \<open>Configuration documents\<close>

text \<open>
  The YAML documents are modelled by the schema the code reads them with.  A key that may
  be absent is an \<open>option\<close> field (\<open>None\<close>: the key is not in the mapping), so that
  \<^verbatim>\<open>d.get(k, default)\<close> and the \<^verbatim>\<open>KeyError\<close> of \<^verbatim>\<open>d[k]\<close> are both visible.
  A mapping is the empty dict exactly when all its keys are absent.
\<close>

record persona_config =
  pc_character :: "string option"
  pc_domain :: "string option"
  pc_role :: "string option"
  pc_traits :: "string option"
  pc_model :: "string option"
  pc_models :: "string list option"
  pc_emoji :: "string option"
  pc_governance :: "string list option"
  pc_governance_mode :: "string option"
  pc_standards :: "string list option"

text \<open>The value of a routing keyword: one persona name, or a list of names.\<close>

datatype target = Name string | Names "string list"

record routing =
  rt_keywords :: "(string \<times> target) list option"

record workflow =
  wf_personas :: "(string \<times> string) list option"

record workflows =
  wf_team_review :: "workflow option"

record personas_document =
  pd_personas :: "(string \<times> persona_config) list option"
  pd_routing :: "routing option"
  pd_workflows :: "workflows option"

record std_meta =
  sm_name :: "string option"
  sm_version :: "string option"
  sm_files :: "string list option"

record manifest =
  mf_standard :: "std_meta option"

record control =
  ctrl_id :: "string option"
  ctrl_requirement :: "string option"
  ctrl_severity :: "string option"

record domain_document =
  dm_controls :: "control list option"

text \<open>The content of a governance file is free-form YAML.\<close>

datatype yaml = YNull | YBool bool | YInt int | YStr string | YList "yaml list"
  | YMap "(string \<times> yaml) list"

datatype document =
    EmptyDoc
  | PersonasDoc personas_document
  | GovernanceDoc "(string \<times> yaml) list"
  | ManifestDoc manifest
  | DomainDoc domain_document

text \<open>Python's truth test on a mapping: \<^verbatim>\<open>not d\<close> holds for the empty dict.\<close>

definition config_empty :: "persona_config \<Rightarrow> bool" where
  "config_empty c \<longleftrightarrow>
     pc_character c = None \<and> pc_domain c = None \<and> pc_role c = None \<and> pc_traits c = None \<and>
     pc_model c = None \<and> pc_models c = None \<and> pc_emoji c = None \<and> pc_governance c = None \<and>
     pc_governance_mode c = None \<and> pc_standards c = None"

fun doc_empty :: "document \<Rightarrow> bool" where
  "doc_empty EmptyDoc = True"
| "doc_empty (PersonasDoc d) =
     (pd_personas d = None \<and> pd_routing d = None \<and> pd_workflows d = None)"
| "doc_empty (GovernanceDoc kvs) = (kvs = [])"
| "doc_empty (ManifestDoc m) = (mf_standard m = None)"
| "doc_empty (DomainDoc d) = (dm_controls d = None)"

section \<open>The outside world\<close>

text \<open>
  A file holds what \<^verbatim>\<open>yaml.safe_load\<close> makes of its text: a parse failure, or a value,
  which is \<open>None\<close> for an empty file.
\<close>

datatype parsed = Unparsable string | Parsed "document option"

datatype node = Dir | File parsed

record request =
  rq_url :: string
  rq_authorization :: string
  rq_content_type :: string
  rq_model :: string
  rq_system :: string
  rq_user :: string
  rq_timeout :: nat

text \<open>The JSON body of a chat completion, with every key the code subscripts.\<close>

datatype message = Message (msg_content: "string option")

datatype choice = Choice (ch_message: "message option")

datatype completion = Completion (cp_choices: "choice list option")

record response =
  rs_status :: nat
  rs_text :: string
  rs_json :: "string + completion"

text \<open>
  \<open>fs\<close> is the file system: what there is at each absolute, normalised location (the
  list of directory names from the root \<open>[]\<close>, which is a directory); \<open>cwd\<close> is the current
  working directory and \<open>pkg_dir\<close> the directory of the installed package, both absolute;
  \<open>yaml_dump\<close> is \<^verbatim>\<open>yaml.dump\<close> with block style; \<open>str_lower\<close> and \<open>str_upper\<close> are
  \<^verbatim>\<open>str.lower\<close> and \<^verbatim>\<open>str.upper\<close>; \<open>api_key\<close> is the key \<^verbatim>\<open>get_api_key\<close> finds in the
  environment, if any; \<open>http\<close> answers a POST with a response or with the message of the
  exception the client raises.
\<close>

record world =
  cwd :: path
  pkg_dir :: path
  fs :: "path \<Rightarrow> node option"
  yaml_dump :: "document \<Rightarrow> string"
  str_lower :: "string \<Rightarrow> string"
  str_upper :: "string \<Rightarrow> string"
  api_key :: "string option"
  http :: "request \<Rightarrow> string + response"

text \<open>
  \<^verbatim>\<open>base / name\<close> of \<^verbatim>\<open>pathlib\<close>: the name is cut at its slashes, empty parts and \<open>.\<close> are
  dropped and \<open>..\<close> is kept; a name that starts with a slash replaces the base.
\<close>

definition components :: "string \<Rightarrow> string list" where
  "components name = filter (\<lambda>c. c \<noteq> [] \<and> c \<noteq> ''.'') (split_on CHR ''/'' name)"

definition absolute :: "string \<Rightarrow> bool" where
  "absolute name = (case name of [] \<Rightarrow> False | c # _ \<Rightarrow> c = CHR ''/'')"

definition path_join :: "path \<Rightarrow> string \<Rightarrow> path" where
  "path_join p name = (if absolute name then components name else p @ components name)"

text \<open>
  What the operating system finds when it follows a path from the root: every step
  starts in a directory, and \<open>..\<close> steps to the parent (the root is its own parent).
  Symbolic links and permissions are not modelled.
\<close>

definition node_at :: "world \<Rightarrow> path \<Rightarrow> node option" where
  "node_at w p = (if p = [] then Some Dir else fs w p)"

fun resolve :: "world \<Rightarrow> path \<Rightarrow> string list \<Rightarrow> node option" where
  "resolve w cur [] = node_at w cur"
| "resolve w cur (c # cs) =
     (if node_at w cur = Some Dir
      then resolve w (if c = ''..'' then butlast cur else cur @ [c]) cs
      else None)"

definition lookup :: "world \<Rightarrow> path \<Rightarrow> node option" where
  "lookup w p = resolve w [] p"

text \<open>\<^verbatim>\<open>p.is_dir()\<close> and \<^verbatim>\<open>p.exists()\<close>.\<close>

definition is_dir :: "world \<Rightarrow> path \<Rightarrow> bool" where
  "is_dir w p \<longleftrightarrow> lookup w p = Some Dir"

definition exists :: "world \<Rightarrow> path \<Rightarrow> bool" where
  "exists w p \<longleftrightarrow> lookup w p \<noteq> None"

section \<open>The loader\<close>

definition find_config_root :: "world \<Rightarrow> path" where
  "find_config_root w =
     (if is_dir w (path_join (cwd w) ''governance'') then cwd w else pkg_dir w)"

definition get_paths :: "world \<Rightarrow> path \<times> path \<times> path \<times> path" where
  "get_paths w =
     (let base = find_config_root w
      in (base, path_join base ''governance'', path_join base ''standards'',
          path_join base ''personas''))"

definition governance_dir :: "world \<Rightarrow> path" where
  "governance_dir w = (case get_paths w of (_, g, _, _) \<Rightarrow> g)"

definition standards_dir :: "world \<Rightarrow> path" where
  "standards_dir w = (case get_paths w of (_, _, s, _) \<Rightarrow> s)"

definition personas_dir :: "world \<Rightarrow> path" where
  "personas_dir w = (case get_paths w of (_, _, _, p) \<Rightarrow> p)"

text \<open>
  \<^verbatim>\<open>open\<close> on a directory raises; \<^verbatim>\<open>yaml.safe_load(f) or {}\<close> turns \<^verbatim>\<open>None\<close> and
  every other false value into the empty mapping.
\<close>

definition load_yaml :: "world \<Rightarrow> path \<Rightarrow> error + document" where
  "load_yaml w p =
     (if \<not> exists w p then Inr EmptyDoc
      else (case lookup w p of
              Some (File (Parsed (Some d))) \<Rightarrow> Inr (if doc_empty d then EmptyDoc else d)
            | Some (File (Parsed None)) \<Rightarrow> Inr EmptyDoc
            | Some (File (Unparsable m)) \<Rightarrow> Inl (YAMLError m)
            | _ \<Rightarrow> Inl (IsADirectoryError p)))"

fun load_governance_loop ::
  "world \<Rightarrow> path \<Rightarrow> string list \<Rightarrow> (string \<times> document) list \<Rightarrow> error + (string \<times> document) list"
where
  "load_governance_loop w dir [] governance = Inr governance"
| "load_governance_loop w dir (filename # files) governance =
     (let p = path_join dir filename
      in if exists w p
         then and_then (load_yaml w p)
                (\<lambda>d. load_governance_loop w dir files (dict_set governance filename d))
         else load_governance_loop w dir files governance)"

definition load_governance :: "world \<Rightarrow> string list \<Rightarrow> error + (string \<times> document) list" where
  "load_governance w files = load_governance_loop w (governance_dir w) files []"

text \<open>
  A loaded standard: \<^verbatim>\<open>{"manifest": ..., "domains": {...}}\<close>.  \<^verbatim>\<open>load_standard\<close> returns
  the empty dict (\<open>None\<close> here) when the directory or the manifest is missing.
\<close>

record standard =
  st_manifest :: document
  st_domains :: "(string \<times> document) list"

text \<open>\<^verbatim>\<open>manifest.get("standard", {})\<close> and \<^verbatim>\<open>domain_content.get("controls", [])\<close>.\<close>

definition no_meta :: std_meta where
  "no_meta = \<lparr>sm_name = None, sm_version = None, sm_files = None\<rparr>"

fun doc_standard :: "document \<Rightarrow> std_meta" where
  "doc_standard (ManifestDoc m) = (case mf_standard m of None \<Rightarrow> no_meta | Some sm \<Rightarrow> sm)"
| "doc_standard _ = no_meta"

fun doc_controls :: "document \<Rightarrow> control list" where
  "doc_controls (DomainDoc d) = (case dm_controls d of None \<Rightarrow> [] | Some cs \<Rightarrow> cs)"
| "doc_controls _ = []"

fun load_domains_loop ::
  "world \<Rightarrow> path \<Rightarrow> string list \<Rightarrow> (string \<times> document) list \<Rightarrow> error + (string \<times> document) list"
where
  "load_domains_loop w dir [] domains = Inr domains"
| "load_domains_loop w dir (filename # files) domains =
     (let domain_path = path_join dir filename
      in if exists w domain_path
         then and_then (load_yaml w domain_path)
                (\<lambda>d. load_domains_loop w dir files
                        (dict_set domains (remove_all ''.yaml'' filename) d))
         else load_domains_loop w dir files domains)"

definition load_standard :: "world \<Rightarrow> string \<Rightarrow> error + standard option" where
  "load_standard w standard_id =
     (let standard_dir = path_join (standards_dir w) standard_id
      in if \<not> exists w standard_dir then Inr None
         else and_then (load_yaml w (path_join standard_dir ''manifest.yaml''))
                (\<lambda>manifest.
                   if doc_empty manifest then Inr None
                   else and_then
                          (load_domains_loop w standard_dir
                             (case sm_files (doc_standard manifest) of None \<Rightarrow> [] | Some fl \<Rightarrow> fl) [])
                          (\<lambda>domains. Inr (Some \<lparr>st_manifest = manifest, st_domains = domains\<rparr>))))"

definition load_personas :: "world \<Rightarrow> error + document" where
  "load_personas w = load_yaml w (path_join (personas_dir w) ''personas.yaml'')"

text \<open>\<^verbatim>\<open>personas.get("personas", {})\<close>, \<^verbatim>\<open>.get("routing", {})\<close>, \<^verbatim>\<open>.get("workflows", {})\<close>.\<close>

fun doc_personas :: "document \<Rightarrow> (string \<times> persona_config) list" where
  "doc_personas (PersonasDoc d) = (case pd_personas d of None \<Rightarrow> [] | Some ps \<Rightarrow> ps)"
| "doc_personas _ = []"

fun doc_routing :: "document \<Rightarrow> routing" where
  "doc_routing (PersonasDoc d) =
     (case pd_routing d of None \<Rightarrow> \<lparr>rt_keywords = None\<rparr> | Some r \<Rightarrow> r)"
| "doc_routing _ = \<lparr>rt_keywords = None\<rparr>"

fun doc_workflows :: "document \<Rightarrow> workflows" where
  "doc_workflows (PersonasDoc d) =
     (case pd_workflows d of None \<Rightarrow> \<lparr>wf_team_review = None\<rparr> | Some flows \<Rightarrow> flows)"
| "doc_workflows _ = \<lparr>wf_team_review = None\<rparr>"

definition get_persona_config :: "world \<Rightarrow> string \<Rightarrow> error + persona_config option" where
  "get_persona_config w persona_name =
     and_then (load_personas w) (\<lambda>personas. Inr (map_of (doc_personas personas) persona_name))"

text \<open>\<^verbatim>\<open>not config\<close>: the lookup gave \<^verbatim>\<open>None\<close>, or an empty mapping.\<close>

fun not_config :: "persona_config option \<Rightarrow> bool" where
  "not_config None = True"
| "not_config (Some c) = config_empty c"

definition get_persona_governance :: "world \<Rightarrow> string \<Rightarrow> error + (string \<times> document) list" where
  "get_persona_governance w persona_name =
     and_then (get_persona_config w persona_name)
       (\<lambda>config. case config of
                   None \<Rightarrow> Inr []
                 | Some c \<Rightarrow>
                     if config_empty c then Inr []
                     else load_governance w (case pc_governance c of None \<Rightarrow> [] | Some fl \<Rightarrow> fl))"

fun load_standards_loop ::
  "world \<Rightarrow> string list \<Rightarrow> (string \<times> standard) list \<Rightarrow> error + (string \<times> standard) list"
where
  "load_standards_loop w [] standards = Inr standards"
| "load_standards_loop w (standard_id # ids) standards =
     and_then (load_standard w standard_id)
       (\<lambda>std. case std of
                 None \<Rightarrow> load_standards_loop w ids standards
               | Some s \<Rightarrow> load_standards_loop w ids (dict_set standards standard_id s))"

definition get_persona_standards :: "world \<Rightarrow> string \<Rightarrow> error + (string \<times> standard) list" where
  "get_persona_standards w persona_name =
     and_then (get_persona_config w persona_name)
       (\<lambda>config. case config of
                   None \<Rightarrow> Inr []
                 | Some c \<Rightarrow>
                     if config_empty c then Inr []
                     else load_standards_loop w
                            (case pc_standards c of None \<Rightarrow> [] | Some ids \<Rightarrow> ids) [])"

definition no_governance :: string where
  "no_governance = ''No specific governance rules loaded.''"

definition no_standards :: string where
  "no_standards = ''No regulatory standards applicable.''"

fun governance_sections ::
  "world \<Rightarrow> (string \<times> document) list \<Rightarrow> string list \<Rightarrow> string list"
where
  "governance_sections w [] sections = sections"
| "governance_sections w ((filename, content) # rest) sections =
     governance_sections w rest (sections @ [''# '' @ filename] @ [yaml_dump w content])"

definition format_governance_for_prompt :: "world \<Rightarrow> (string \<times> document) list \<Rightarrow> string" where
  "format_governance_for_prompt w governance =
     (if governance = [] then no_governance
      else join (NL @ NL) (governance_sections w governance []))"

definition control_line :: "control \<Rightarrow> string" where
  "control_line c =
     (let ctrl = (case ctrl_id c of None \<Rightarrow> [] | Some x \<Rightarrow> x);
          requirement = (case ctrl_requirement c of None \<Rightarrow> [] | Some x \<Rightarrow> x);
          severity = (case ctrl_severity c of None \<Rightarrow> [] | Some x \<Rightarrow> x)
      in ''- ['' @ ctrl @ ''] ('' @ severity @ '') '' @ requirement)"

fun control_sections :: "control list \<Rightarrow> string list \<Rightarrow> string list" where
  "control_sections [] sections = sections"
| "control_sections (c # cs) sections = control_sections cs (sections @ [control_line c])"

fun domain_sections :: "(string \<times> document) list \<Rightarrow> string list \<Rightarrow> string list" where
  "domain_sections [] sections = sections"
| "domain_sections ((domain_name, domain_content) # rest) sections =
     domain_sections rest
       (control_sections (take 10 (doc_controls domain_content))
          (sections @ [NL @ ''## '' @ domain_name]))"

definition standard_header :: "string \<Rightarrow> standard \<Rightarrow> string" where
  "standard_header standard_id content =
     (let m = doc_standard (st_manifest content)
      in ''# '' @ (case sm_name m of None \<Rightarrow> standard_id | Some n \<Rightarrow> n) @ '' (v''
           @ (case sm_version m of None \<Rightarrow> ''unknown'' | Some v \<Rightarrow> v) @ '')'')"

fun standard_sections :: "(string \<times> standard) list \<Rightarrow> string list \<Rightarrow> string list" where
  "standard_sections [] sections = sections"
| "standard_sections ((standard_id, content) # rest) sections =
     standard_sections rest
       (domain_sections (st_domains content) (sections @ [standard_header standard_id content]))"

definition format_standards_for_prompt :: "(string \<times> standard) list \<Rightarrow> string" where
  "format_standards_for_prompt standards =
     (if standards = [] then no_standards
      else join NL (standard_sections standards []))"

definition get_routing_rules :: "world \<Rightarrow> error + routing" where
  "get_routing_rules w = and_then (load_personas w) (\<lambda>personas. Inr (doc_routing personas))"

record persona_data =
  pa_config :: persona_config
  pa_governance :: "(string \<times> document) list"
  pa_standards :: "(string \<times> standard) list"
  pa_governance_text :: string
  pa_standards_text :: string

text \<open>\<^verbatim>\<open>load_all_for_persona\<close> returns the empty dict (\<open>None\<close> here) for an unknown persona.\<close>

definition load_all_for_persona :: "world \<Rightarrow> string \<Rightarrow> error + persona_data option" where
  "load_all_for_persona w persona_name =
     and_then (get_persona_config w persona_name)
       (\<lambda>config. case config of
                   None \<Rightarrow> Inr None
                 | Some c \<Rightarrow>
                     if config_empty c then Inr None
                     else and_then (get_persona_governance w persona_name)
                            (\<lambda>gov. and_then (get_persona_standards w persona_name)
                               (\<lambda>std. Inr (Some \<lparr>pa_config = c, pa_governance = gov,
                                                  pa_standards = std,
                                                  pa_governance_text = format_governance_for_prompt w gov,
                                                  pa_standards_text = format_standards_for_prompt std\<rparr>))))"

section \<open>The persona engine\<close>

definition unknown_persona :: "string \<Rightarrow> error" where
  "unknown_persona persona_name = ValueError (''Unknown persona: '' @ persona_name)"

definition response_style :: string where
  "response_style =
     ''RESPONSE STYLE:'' @ NL
     @ ''- Stay in character with appropriate personality'' @ NL
     @ ''- Enforce governance and standards strictly'' @ NL
     @ ''- Provide actionable, domain-specific advice'' @ NL
     @ ''- Flag violations clearly with control IDs when applicable'' @ NL
     @ ''- Be helpful but maintain character voice'' @ NL
     @ ''- Keep responses focused and concise'' @ NL"

definition prompt_header :: "string \<Rightarrow> string \<Rightarrow> string \<Rightarrow> string" where
  "prompt_header character persona_domain traits =
     ''You are '' @ character @ '', providing '' @ persona_domain @ '' guidance.'' @ NL @ NL
     @ ''CHARACTER TRAITS:'' @ NL @ traits @ NL @ NL"

definition governance_block :: "world \<Rightarrow> string \<Rightarrow> string \<Rightarrow> string" where
  "governance_block w mode governance_text =
     ''ORGANIZATIONAL GOVERNANCE ('' @ str_upper w mode @ '' enforcement):'' @ NL
     @ governance_text @ NL @ NL"

definition standards_block :: "string \<Rightarrow> string" where
  "standards_block standards_text =
     ''REGULATORY STANDARDS (MUST ENFORCE):'' @ NL @ standards_text @ NL @ NL"

definition build_system_prompt :: "world \<Rightarrow> string \<Rightarrow> error + string" where
  "build_system_prompt w persona_name =
     and_then (load_all_for_persona w persona_name)
       (\<lambda>data. case data of
          None \<Rightarrow> Inl (unknown_persona persona_name)
        | Some d \<Rightarrow>
            (let config = pa_config d in
             case pc_character config of
               None \<Rightarrow> Inl (KeyError ''character'')
             | Some character \<Rightarrow>
             (case pc_domain config of
                None \<Rightarrow> Inl (KeyError ''domain'')
              | Some persona_domain \<Rightarrow>
              (case pc_traits config of
                 None \<Rightarrow> Inl (KeyError ''traits'')
               | Some traits \<Rightarrow>
                 (let prompt = prompt_header character persona_domain traits;
                      prompt =
                        (if pa_governance_text d \<noteq> no_governance
                         then (let mode = (case pc_governance_mode config of
                                             None \<Rightarrow> ''standard'' | Some m \<Rightarrow> m)
                               in prompt @ governance_block w mode (pa_governance_text d))
                         else prompt);
                      prompt =
                        (if pa_standards_text d \<noteq> no_standards
                         then prompt @ standards_block (pa_standards_text d)
                         else prompt)
                  in Inr (prompt @ response_style))))))"

text \<open>
  \<^verbatim>\<open>get_api_key\<close> returns the key found in the environment or raises; the module-level
  \<^verbatim>\<open>_API_KEY\<close> only remembers its result.
\<close>

definition get_api_key :: "world \<Rightarrow> error + string" where
  "get_api_key w =
     (case api_key w of
        Some key \<Rightarrow> Inr key
      | None \<Rightarrow> Inl (ValueError
          ''OPENROUTER_API_KEY not found. Set it as an environment variable or in a .env file.''))"

text \<open>\<^verbatim>\<open>result["choices"][0]["message"]["content"]\<close>, with the error of each subscript.\<close>

fun first_choice_content :: "completion \<Rightarrow> error + string" where
  "first_choice_content (Completion None) = Inl (KeyError ''choices'')"
| "first_choice_content (Completion (Some [])) = Inl (IndexError ''list index out of range'')"
| "first_choice_content (Completion (Some (Choice None # _))) = Inl (KeyError ''message'')"
| "first_choice_content (Completion (Some (Choice (Some (Message None)) # _))) =
     Inl (KeyError ''content'')"
| "first_choice_content (Completion (Some (Choice (Some (Message (Some c))) # _))) = Inr c"

text \<open>\<^verbatim>\<open>if context\<close> holds for a context that is given and is not the empty string.\<close>

definition user_message :: "string \<Rightarrow> string option \<Rightarrow> string" where
  "user_message user_prompt context =
     (case context of
        None \<Rightarrow> user_prompt
      | Some c \<Rightarrow> if c \<noteq> [] then ''Context: '' @ c @ NL @ NL @ user_prompt else user_prompt)"

definition llm_request :: "string \<Rightarrow> string \<Rightarrow> string \<Rightarrow> string \<Rightarrow> request" where
  "llm_request key model system_prompt message =
     \<lparr>rq_url = ''https://openrouter.ai/api/v1/chat/completions'',
      rq_authorization = ''Bearer '' @ key,
      rq_content_type = ''application/json'',
      rq_model = model,
      rq_system = system_prompt,
      rq_user = message,
      rq_timeout = 60\<rparr>"

text \<open>
  An effectful function returns its outcome together with the HTTP requests it sent, in
  order.  \<^verbatim>\<open>query_llm\<close> sends nothing when no API key is found.
\<close>

definition query_llm ::
  "world \<Rightarrow> string \<Rightarrow> string \<Rightarrow> string \<Rightarrow> string option \<Rightarrow> (error + string) \<times> request list"
where
  "query_llm w model system_prompt user_prompt context =
     (case get_api_key w of
        Inl e \<Rightarrow> (Inl e, [])
      | Inr key \<Rightarrow>
          (let message = user_message user_prompt context;
               req = llm_request key model system_prompt message
           in ((case http w req of
                  Inl m \<Rightarrow> Inl (ClientError m)
                | Inr response \<Rightarrow>
                    if rs_status response \<noteq> 200
                    then Inl (RuntimeError (''OpenRouter API error '' @ str_nat (rs_status response)
                                @ '': '' @ rs_text response))
                    else (case rs_json response of
                            Inl m \<Rightarrow> Inl (ClientError m)
                          | Inr result \<Rightarrow> first_choice_content result)),
               [req])))"

text \<open>
  \<^verbatim>\<open>asyncio.gather(*tasks, return_exceptions=True)\<close>: every task runs, and an exception
  becomes that task's result.  The requests are listed task by task.
\<close>

definition gather :: "('r \<times> 'l list) list \<Rightarrow> 'r list \<times> 'l list" where
  "gather tasks = (map fst tasks, concat (map snd tasks))"

text \<open>The message of calling \<^verbatim>\<open>.get\<close> on \<^verbatim>\<open>None\<close>.\<close>

definition none_has_no_get :: string where
  "none_has_no_get =
     [CHR 0x27] @ ''NoneType'' @ [CHR 0x27] @ '' object has no attribute ''
     @ [CHR 0x27] @ ''get'' @ [CHR 0x27]"

definition default_models :: "string list" where
  "default_models = [''anthropic/claude-3.5-sonnet'', ''openai/gpt-4o'']"

definition consensus_entry :: "string \<Rightarrow> error + string \<Rightarrow> string" where
  "consensus_entry model resp =
     (let name = last (split_on CHR ''/'' model)
      in case resp of
           Inl e \<Rightarrow> ''**'' @ name @ ''**: Error '' @ em_dash @ '' '' @ str_error e @ NL @ NL
         | Inr r \<Rightarrow> ''**'' @ name @ ''**:'' @ NL @ r @ NL @ NL)"

fun consensus_loop :: "(string \<times> (error + string)) list \<Rightarrow> string \<Rightarrow> string" where
  "consensus_loop [] result = result"
| "consensus_loop ((model, resp) # rest) result =
     consensus_loop rest (result @ consensus_entry model resp)"

definition consensus_review ::
  "world \<Rightarrow> string \<Rightarrow> string \<Rightarrow> string option \<Rightarrow> (error + string) \<times> request list"
where
  "consensus_review w persona_name question context =
     (case get_persona_config w persona_name of
        Inl e \<Rightarrow> (Inl e, [])
      | Inr None \<Rightarrow> (Inl (AttributeError none_has_no_get), [])
      | Inr (Some config) \<Rightarrow>
          (let models = (case pc_models config of None \<Rightarrow> default_models | Some ms \<Rightarrow> ms)
           in case build_system_prompt w persona_name of
                Inl e \<Rightarrow> (Inl e, [])
              | Inr system_prompt \<Rightarrow>
                  (let tasks = map (\<lambda>m. query_llm w m system_prompt question context) models;
                       (responses, sent) = gather tasks;
                       emoji = (case pc_emoji config of None \<Rightarrow> eye_emoji | Some e \<Rightarrow> e);
                       result = emoji @ '' Peer Review (Multi-LLM Consensus)'' @ NL @ NL;
                       result = consensus_loop (zip models responses) result
                   in (Inr (result @ ''---'' @ NL @ ''*Consensus review from multiple perspectives*''),
                       sent))))"

definition consult_persona ::
  "world \<Rightarrow> string \<Rightarrow> string \<Rightarrow> string option \<Rightarrow> (error + string) \<times> request list"
where
  "consult_persona w persona_name question context =
     (case get_persona_config w persona_name of
        Inl e \<Rightarrow> (Inl e, [])
      | Inr None \<Rightarrow> (Inl (unknown_persona persona_name), [])
      | Inr (Some config) \<Rightarrow>
          if config_empty config then (Inl (unknown_persona persona_name), [])
          else (case build_system_prompt w persona_name of
                  Inl e \<Rightarrow> (Inl e, [])
                | Inr system_prompt \<Rightarrow>
                    (let model = (case pc_model config of
                                    None \<Rightarrow> ''anthropic/claude-3.5-sonnet'' | Some m \<Rightarrow> m)
                     in if model = ''consensus''
                        then consensus_review w persona_name question context
                        else query_llm w model system_prompt question context)))"

text \<open>\<^verbatim>\<open>xs[0]\<close> and \<^verbatim>\<open>xs[-1]\<close>: both raise on the empty list.\<close>

fun first_item :: "'a list \<Rightarrow> error + 'a" where
  "first_item [] = Inl (IndexError ''list index out of range'')"
| "first_item (x # xs) = Inr x"

fun last_item :: "'a list \<Rightarrow> error + 'a" where
  "last_item [] = Inl (IndexError ''list index out of range'')"
| "last_item (x # xs) = Inr (last (x # xs))"

fun route_loop :: "(string \<times> target) list \<Rightarrow> string \<Rightarrow> error + string" where
  "route_loop [] q = Inr ''reviewer''"
| "route_loop ((keyword, persona) # rest) q =
     (if contains keyword q
      then (case persona of
              Names ps \<Rightarrow>
                if contains ''production'' q \<or> contains ''prod'' q then last_item ps
                else first_item ps
            | Name p \<Rightarrow> Inr p)
      else route_loop rest q)"

definition route_question :: "world \<Rightarrow> string \<Rightarrow> error + string" where
  "route_question w question =
     and_then (get_routing_rules w)
       (\<lambda>rules. let keywords = (case rt_keywords rules of None \<Rightarrow> [] | Some ks \<Rightarrow> ks);
                    q = str_lower w question
                in route_loop keywords q)"

text \<open>
  The workflows call \<^verbatim>\<open>consult_persona\<close>; as the test-suite does, the model lets the
  consultation be replaced: \<open>team_review_with\<close> and \<open>deployment_gate_with\<close> take it as an
  argument, and \<open>team_review\<close> and \<open>deployment_gate\<close> pass \<open>consult_persona\<close>.
\<close>

type_synonym 'l consult = "string \<Rightarrow> string \<Rightarrow> string option \<Rightarrow> (error + string) \<times> 'l list"

fun team_tasks ::
  "'l consult \<Rightarrow> (string \<times> string) list \<Rightarrow> string \<Rightarrow> string option
     \<Rightarrow> (string \<times> (error + string) \<times> 'l list) list \<Rightarrow> (string \<times> (error + string) \<times> 'l list) list"
where
  "team_tasks consult [] content context tasks = tasks"
| "team_tasks consult ((name, prompt_suffix) # rest) content context tasks =
     team_tasks consult rest content context
       (dict_set tasks name (consult name (prompt_suffix @ '': '' @ content) context))"

fun team_results ::
  "(string \<times> (error + string)) list \<Rightarrow> (string \<times> string) list \<Rightarrow> (string \<times> string) list"
where
  "team_results [] results = results"
| "team_results ((name, resp) # rest) results =
     team_results rest
       (dict_set results name (case resp of Inl e \<Rightarrow> ''Error: '' @ str_error e | Inr r \<Rightarrow> r))"

definition team_review_with ::
  "'l consult \<Rightarrow> world \<Rightarrow> string \<Rightarrow> string option \<Rightarrow> (error + (string \<times> string) list) \<times> 'l list"
where
  "team_review_with consult w content context =
     (case load_personas w of
        Inl e \<Rightarrow> (Inl e, [])
      | Inr personas_config \<Rightarrow>
          (let workflow = (case wf_team_review (doc_workflows personas_config) of
                             None \<Rightarrow> \<lparr>wf_personas = None\<rparr> | Some x \<Rightarrow> x);
               tasks = team_tasks consult
                         (case wf_personas workflow of None \<Rightarrow> [] | Some ps \<Rightarrow> ps)
                         content context [];
               (responses, sent) = gather (map snd tasks)
           in (Inr (team_results (zip (map fst tasks) responses) []), sent)))"

definition team_review ::
  "world \<Rightarrow> string \<Rightarrow> string option \<Rightarrow> (error + (string \<times> string) list) \<times> request list"
where
  "team_review w content context = team_review_with (consult_persona w) w content context"

record gate_result =
  dg_checks :: "(string \<times> (error + string)) list"
  dg_approver :: string
  dg_approval :: string
  dg_environment :: string

text \<open>\<^verbatim>\<open>f"{checks.get(name, 'Error')}"\<close>: a response as it is, an exception as \<^verbatim>\<open>str\<close> gives it.\<close>

definition check_text :: "(string \<times> (error + string)) list \<Rightarrow> string \<Rightarrow> string" where
  "check_text checks name =
     (case map_of checks name of
        None \<Rightarrow> ''Error''
      | Some (Inl e) \<Rightarrow> str_error e
      | Some (Inr r) \<Rightarrow> r)"

definition deployment_gate_with ::
  "'l consult \<Rightarrow> world \<Rightarrow> string \<Rightarrow> string \<Rightarrow> string option
     \<Rightarrow> (error + gate_result) \<times> 'l list"
where
  "deployment_gate_with consult w deployment_plan environment context =
     (let check_tasks =
            [(''auditor'',
              consult ''auditor'' (''Cost check for deployment: '' @ deployment_plan) context),
             (''sentinel'',
              consult ''sentinel'' (''Security check for deployment: '' @ deployment_plan) context)];
          (check_responses, sent) = gather (map snd check_tasks);
          checks = zip (map fst check_tasks) check_responses;
          approver =
            (if str_lower w environment = ''production'' then ''guardian'' else ''tester'');
          approval_ctx =
            ''Cost: '' @ check_text checks ''auditor'' @ NL
            @ ''Security: '' @ check_text checks ''sentinel'' @ NL
            @ (case context of None \<Rightarrow> [] | Some c \<Rightarrow> c);
          (approval, sent') =
            consult approver
              (''Approve deployment to '' @ environment @ ''?'' @ NL @ NL @ ''Plan: '' @ deployment_plan)
              (Some approval_ctx)
      in (case approval of
            Inl e \<Rightarrow> (Inl e, sent @ sent')
          | Inr a \<Rightarrow>
              (Inr \<lparr>dg_checks = checks, dg_approver = approver, dg_approval = a,
                    dg_environment = environment\<rparr>,
               sent @ sent')))"

definition deployment_gate ::
  "world \<Rightarrow> string \<Rightarrow> string \<Rightarrow> string option \<Rightarrow> (error + gate_result) \<times> request list"
where
  "deployment_gate w deployment_plan environment context =
     deployment_gate_with (consult_persona w) w deployment_plan environment context"

section \<open>What the specification says, in its own words\<close>

text \<open>The first routing rule, in rule order, whose keyword occurs in the question.\<close>

definition first_keyword :: "(string \<times> target) list \<Rightarrow> string \<Rightarrow> (string \<times> target) option" where
  "first_keyword rules q = find (\<lambda>(keyword, persona). sublist keyword q) rules"

text \<open>The approver of a deployment: the guardian for production, the tester otherwise.\<close>

definition approver_for :: "world \<Rightarrow> string \<Rightarrow> string" where
  "approver_for w environment =
     (if str_lower w environment = ''production'' then ''guardian'' else ''tester'')"

text \<open>A consultation that only records whom it was addressed to, and answers as told.\<close>

definition recording ::
  "(string \<Rightarrow> string \<Rightarrow> string option \<Rightarrow> error + string) \<Rightarrow> (string \<times> string \<times> string option) consult"
where
  "recording answer name question context =
     (answer name question context, [(name, question, context)])"

text \<open>The text of a check result inside the approval context.\<close>

fun result_text :: "error + string \<Rightarrow> string" where
  "result_text (Inl e) = str_error e"
| "result_text (Inr r) = r"

text \<open>An entry of the team review: the response, or the error as a string.\<close>

fun team_entry :: "error + string \<Rightarrow> string" where
  "team_entry (Inl e) = ''Error: '' @ str_error e"
| "team_entry (Inr r) = r"

text \<open>The personas of the team review workflow, with their prompt prefixes.\<close>

definition team_members :: "document \<Rightarrow> (string \<times> string) list" where
  "team_members personas_config =
     (case wf_team_review (doc_workflows personas_config) of
        None \<Rightarrow> []
      | Some workflow \<Rightarrow> (case wf_personas workflow of None \<Rightarrow> [] | Some ps \<Rightarrow> ps))"





text \<open>
  A plain name: a relative path that never steps to a parent.  A location below a root:
  the root followed by names none of which is \<open>..\<close>.
\<close>

definition plain :: "string \<Rightarrow> bool" where
  "plain name \<longleftrightarrow> \<not> absolute name \<and> ''..'' \<notin> set (components name)"

definition below :: "path \<Rightarrow> path \<Rightarrow> bool" where
  "below root p \<longleftrightarrow> prefix root p \<and> ''..'' \<notin> set (drop (length root) p)"

text \<open>The domain files the manifest of a standard lists.\<close>

definition manifest_files :: "world \<Rightarrow> string \<Rightarrow> string list" where
  "manifest_files w standard_id =
     (case load_yaml w (path_join (path_join (standards_dir w) standard_id) ''manifest.yaml'') of
        Inl e \<Rightarrow> []
      | Inr manifest \<Rightarrow> (case sm_files (doc_standard manifest) of None \<Rightarrow> [] | Some fl \<Rightarrow> fl))"

section \<open>A sample installation\<close>

text \<open>
  A small installation on which the theorems below are exercised: the bundled directory
  \<open>/pkg\<close> holds the personas, one governance file, one standard with twelve controls and
  one whose manifest lists a file by a path through \<open>..\<close>; the working directory \<open>/home\<close>
  has no \<open>governance\<close> directory; \<open>/etc\<close> holds one more policy file and one more standard.
  Its texts are ASCII, on which the case conversions are the familiar ones.
\<close>

definition upper_letters :: string where
  "upper_letters = ''ABCDEFGHIJKLMNOPQRSTUVWXYZ''"

definition lower_letters :: string where
  "lower_letters = ''abcdefghijklmnopqrstuvwxyz''"

definition ascii_lower :: "string \<Rightarrow> string" where
  "ascii_lower s =
     map (\<lambda>c. case map_of (zip upper_letters lower_letters) c of Some d \<Rightarrow> d | None \<Rightarrow> c) s"

definition ascii_upper :: "string \<Rightarrow> string" where
  "ascii_upper s =
     map (\<lambda>c. case map_of (zip lower_letters upper_letters) c of Some d \<Rightarrow> d | None \<Rightarrow> c) s"

definition sentinel_config :: persona_config where
  "sentinel_config =
     \<lparr>pc_character = Some ''Sentinel'', pc_domain = Some ''security'', pc_role = Some ''guard'',
      pc_traits = Some ''- vigilant'', pc_model = Some ''openai/gpt-4o'', pc_models = None,
      pc_emoji = Some ''S'', pc_governance = Some [''security.yaml'', ''missing.yaml''],
      pc_governance_mode = Some ''strict'', pc_standards = Some [''owasp'', ''nist'']\<rparr>"

definition reviewer_config :: persona_config where
  "reviewer_config =
     \<lparr>pc_character = Some ''Reviewer'', pc_domain = Some ''code review'', pc_role = None,
      pc_traits = Some ''- thorough'', pc_model = Some ''consensus'',
      pc_models = Some [''anthropic/claude'', ''openai/gpt-4o''],
      pc_emoji = None, pc_governance = None, pc_governance_mode = None, pc_standards = None\<rparr>"

definition plain_config :: "string \<Rightarrow> persona_config" where
  "plain_config character =
     \<lparr>pc_character = Some character, pc_domain = Some ''ops'', pc_role = None,
      pc_traits = Some ''- calm'', pc_model = None, pc_models = None,
      pc_emoji = None, pc_governance = None, pc_governance_mode = None, pc_standards = None\<rparr>"

definition blank_config :: persona_config where
  "blank_config =
     \<lparr>pc_character = None, pc_domain = None, pc_role = None, pc_traits = None,
      pc_model = None, pc_models = None, pc_emoji = None, pc_governance = None,
      pc_governance_mode = None, pc_standards = None\<rparr>"

definition demo_routing :: routing where
  "demo_routing =
     \<lparr>rt_keywords = Some [(''security'', Name ''sentinel''), (''cost'', Name ''auditor''),
                          (''deploy'', Names [''tester'', ''guardian'']),
                          (''rollback'', Names [])]\<rparr>"

definition demo_team :: "(string \<times> string) list" where
  "demo_team = [(''auditor'', ''Cost review''), (''sentinel'', ''Security review''),
                (''ghost'', ''Ghost review'')]"

definition demo_personas :: document where
  "demo_personas = PersonasDoc
     \<lparr>pd_personas = Some [(''sentinel'', sentinel_config), (''reviewer'', reviewer_config),
                          (''auditor'', plain_config ''Auditor''),
                          (''guardian'', plain_config ''Guardian''),
                          (''tester'', plain_config ''Tester''),
                          (''blank'', blank_config)],
      pd_routing = Some demo_routing,
      pd_workflows = Some \<lparr>wf_team_review = Some \<lparr>wf_personas = Some demo_team\<rparr>\<rparr>\<rparr>"

definition demo_control :: "string \<Rightarrow> control" where
  "demo_control n =
     \<lparr>ctrl_id = Some n, ctrl_requirement = Some (''req '' @ n), ctrl_severity = Some ''high''\<rparr>"

definition demo_domain :: document where
  "demo_domain = DomainDoc
     \<lparr>dm_controls = Some (map demo_control
        [''A1'', ''A2'', ''A3'', ''A4'', ''A5'', ''A6'', ''A7'', ''A8'', ''A9'', ''A10'',
         ''A11'', ''A12''])\<rparr>"

definition demo_manifest :: document where
  "demo_manifest = ManifestDoc
     \<lparr>mf_standard = Some \<lparr>sm_name = Some ''OWASP'', sm_version = Some ''2021'',
                           sm_files = Some [''injection.yaml'', ''gone.yaml'']\<rparr>\<rparr>"

definition demo_security :: document where
  "demo_security = GovernanceDoc [(''principles'', YList [YStr ''least privilege''])]"

definition demo_policy :: document where
  "demo_policy = GovernanceDoc [(''owner'', YStr ''operations'')]"

definition stray_manifest :: document where
  "stray_manifest = ManifestDoc
     \<lparr>mf_standard = Some \<lparr>sm_name = Some ''Stray'', sm_version = None,
                           sm_files = Some [''../../../etc/policy.yaml'']\<rparr>\<rparr>"

definition demo_fs :: "path \<Rightarrow> node option" where
  "demo_fs = map_of
     [([''home''], Dir),
      ([''etc''], Dir),
      ([''etc'', ''policy.yaml''], File (Parsed (Some demo_policy))),
      ([''etc'', ''std''], Dir),
      ([''etc'', ''std'', ''manifest.yaml''], File (Parsed (Some stray_manifest))),
      ([''pkg''], Dir),
      ([''pkg'', ''personas''], Dir),
      ([''pkg'', ''personas'', ''personas.yaml''], File (Parsed (Some demo_personas))),
      ([''pkg'', ''governance''], Dir),
      ([''pkg'', ''governance'', ''security.yaml''], File (Parsed (Some demo_security))),
      ([''pkg'', ''standards''], Dir),
      ([''pkg'', ''standards'', ''owasp''], Dir),
      ([''pkg'', ''standards'', ''owasp'', ''manifest.yaml''], File (Parsed (Some demo_manifest))),
      ([''pkg'', ''standards'', ''owasp'', ''injection.yaml''], File (Parsed (Some demo_domain))),
      ([''pkg'', ''standards'', ''local''], Dir),
      ([''pkg'', ''standards'', ''local'', ''manifest.yaml''], File (Parsed (Some stray_manifest))),
      ([''pkg'', ''empty.yaml''], File (Parsed None))]"

text \<open>The endpoint answers one model with a completion and fails for another.\<close>

definition demo_http :: "request \<Rightarrow> string + response" where
  "demo_http rq =
     (if rq_model rq = ''anthropic/claude''
      then Inr \<lparr>rs_status = 503, rs_text = ''overloaded'', rs_json = Inl ''no json''\<rparr>
      else Inr \<lparr>rs_status = 200, rs_text = ''ok'',
                rs_json = Inr (Completion (Some [Choice (Some (Message (Some ''Looks fine'')))]))\<rparr>)"

definition demo_world :: world where
  "demo_world =
     \<lparr>cwd = [''home''], pkg_dir = [''pkg''], fs = demo_fs,
      yaml_dump = (\<lambda>d. ''principles: ...''), str_lower = ascii_lower, str_upper = ascii_upper,
      api_key = Some ''sk-1'', http = demo_http\<rparr>"

text \<open>The same installation with one more file outside the bundled directory.\<close>

definition demo_world_notes :: world where
  "demo_world_notes =
     demo_world\<lparr>fs := (fs demo_world)([''home'', ''notes.yaml''] \<mapsto> File (Unparsable ''bad''))\<rparr>"

text \<open>A project with its own \<open>governance\<close> directory.\<close>

definition project_world :: world where
  "project_world =
     demo_world\<lparr>fs := (fs demo_world)([''home'', ''governance''] \<mapsto> Dir)\<rparr>"

text \<open>An installation from which the file \<open>/etc/policy.yaml\<close> has been deleted.\<close>

definition without_policy :: "world \<Rightarrow> world" where
  "without_policy w = w\<lparr>fs := (fs w)([''etc'', ''policy.yaml''] := None)\<rparr>"


definition demo_gate_result :: "string \<Rightarrow> gate_result" where
  "demo_gate_result environment =
     \<lparr>dg_checks = [(''auditor'', Inr ''Looks fine''), (''sentinel'', Inr ''Looks fine'')],
      dg_approver = approver_for demo_world environment, dg_approval = ''Looks fine'',
      dg_environment = environment\<rparr>"

text \<open>A consultation that fails for one persona, as in the test-suite.\<close>

definition demo_answer :: "string \<Rightarrow> string \<Rightarrow> string option \<Rightarrow> error + string" where
  "demo_answer name question context =
     (if name = ''sentinel'' then Inl (RuntimeError ''API error'') else Inr ''OK'')"

section \<open>Auxiliary facts\<close>

lemma and_then_Inl [simp]: "and_then (Inl e) f = Inl e"
  by (simp add: and_then_def)

lemma and_then_Inr [simp]: "and_then (Inr x) f = f x"
  by (simp add: and_then_def)

lemma contains_sublist: "contains k q \<longleftrightarrow> sublist k q"
  by (induction q) (auto simp: sublist_Cons_right)

lemma route_loop_find:
  "route_loop rules q =
     (case first_keyword rules q of
        None \<Rightarrow> Inr ''reviewer''
      | Some (keyword, Name p) \<Rightarrow> Inr p
      | Some (keyword, Names ps) \<Rightarrow>
          if sublist ''production'' q \<or> sublist ''prod'' q then last_item ps else first_item ps)"
  by (induction rules) (auto simp: first_keyword_def contains_sublist split: target.splits)








lemma demo_rules: "get_routing_rules demo_world = Inr demo_routing"
  by code_simp

lemma route_loop_empty_list:
  "contains keyword q \<Longrightarrow>
     route_loop ((keyword, Names []) # rest) q = Inl (IndexError ''list index out of range'')"
  by simp

lemma first_choice_no_value_error: "first_choice_content body \<noteq> Inl (ValueError m)"
  by (cases body rule: first_choice_content.cases) auto

lemma query_llm_no_key:
  "api_key w = None \<Longrightarrow> snd (query_llm w model system_prompt user_prompt context) = []"
  by (simp add: query_llm_def get_api_key_def)

lemma query_llm_not_unknown:
  "fst (query_llm w model system_prompt user_prompt context) \<noteq> Inl (unknown_persona n)"
  by (auto simp: query_llm_def get_api_key_def Let_def unknown_persona_def
                 first_choice_no_value_error
           split: sum.splits option.splits)

lemma load_yaml_no_value_error: "load_yaml w p \<noteq> Inl (ValueError m)"
  by (auto simp: load_yaml_def split: option.splits node.splits parsed.splits)

lemma load_governance_loop_no_value_error:
  "load_governance_loop w dir files acc \<noteq> Inl (ValueError m)"
  by (induction files arbitrary: acc)
     (auto simp: Let_def and_then_def load_yaml_no_value_error split: sum.splits)

lemma load_domains_loop_no_value_error:
  "load_domains_loop w dir files acc \<noteq> Inl (ValueError m)"
  by (induction files arbitrary: acc)
     (auto simp: Let_def and_then_def load_yaml_no_value_error split: sum.splits)

lemma load_standard_no_value_error: "load_standard w sid \<noteq> Inl (ValueError m)"
  by (auto simp: load_standard_def Let_def and_then_def load_yaml_no_value_error
                 load_domains_loop_no_value_error
           split: sum.splits)

lemma load_standards_loop_no_value_error:
  "load_standards_loop w ids acc \<noteq> Inl (ValueError m)"
  by (induction ids arbitrary: acc)
     (auto simp: and_then_def load_standard_no_value_error split: sum.splits option.splits)

lemma get_persona_config_no_value_error: "get_persona_config w n \<noteq> Inl (ValueError m)"
  by (auto simp: get_persona_config_def load_personas_def and_then_def load_yaml_no_value_error
           split: sum.splits)

lemma get_persona_governance_no_value_error: "get_persona_governance w n \<noteq> Inl (ValueError m)"
  by (auto simp: get_persona_governance_def load_governance_def and_then_def
                 get_persona_config_no_value_error load_governance_loop_no_value_error
           split: sum.splits option.splits)

lemma get_persona_standards_no_value_error: "get_persona_standards w n \<noteq> Inl (ValueError m)"
  by (auto simp: get_persona_standards_def and_then_def
                 get_persona_config_no_value_error load_standards_loop_no_value_error
           split: sum.splits option.splits)

lemma build_unknown:
  assumes "get_persona_config w n = Inr config" and "not_config config"
  shows "build_system_prompt w n = Inl (unknown_persona n)"
  using assms
  by (cases config) (simp_all add: build_system_prompt_def load_all_for_persona_def)

lemma build_known_no_value_error:
  assumes "get_persona_config w n = Inr (Some c)" and "\<not> config_empty c"
  shows "build_system_prompt w n \<noteq> Inl (ValueError m)"
proof -
  have "load_all_for_persona w n \<noteq> Inl (ValueError m)"
    using assms
    by (auto simp: load_all_for_persona_def and_then_def get_persona_governance_no_value_error
                   get_persona_standards_no_value_error
             split: sum.splits)
  moreover have "load_all_for_persona w n \<noteq> Inr None"
    using assms
    by (auto simp: load_all_for_persona_def and_then_def split: sum.splits)
  ultimately show ?thesis
    by (auto simp: build_system_prompt_def and_then_def Let_def split: sum.splits option.splits)
qed

lemma consensus_review_returns:
  assumes "get_persona_config w n = Inr (Some c)" and "build_system_prompt w n = Inr sp"
  shows "\<exists>r. fst (consensus_review w n q ctx) = Inr r"
  using assms by (simp add: consensus_review_def Let_def gather_def split: prod.splits)

lemma gate_with_result:
  assumes "fst (deployment_gate_with consult w plan environment context) = Inr r"
  shows "dg_approver r = approver_for w environment \<and> dg_environment r = environment"
  using assms
  by (auto simp: deployment_gate_with_def approver_for_def gather_def Let_def
           split: prod.splits sum.splits)

lemma check_text_pair:
  "check_text [(''auditor'', a), (''sentinel'', s)] ''auditor'' = result_text a"
  "check_text [(''auditor'', a), (''sentinel'', s)] ''sentinel'' = result_text s"
  by (cases a; cases s; simp add: check_text_def)+

lemma gate_with_calls:
  "snd (deployment_gate_with consult w plan environment context) =
     snd (consult ''auditor'' (''Cost check for deployment: '' @ plan) context)
     @ snd (consult ''sentinel'' (''Security check for deployment: '' @ plan) context)
     @ snd (consult (approver_for w environment)
             (''Approve deployment to '' @ environment @ ''?'' @ NL @ NL @ ''Plan: '' @ plan)
             (Some (''Cost: ''
                @ result_text (fst (consult ''auditor''
                                      (''Cost check for deployment: '' @ plan) context))
                @ NL @ ''Security: ''
                @ result_text (fst (consult ''sentinel''
                                      (''Security check for deployment: '' @ plan) context))
                @ NL @ (case context of None \<Rightarrow> [] | Some c \<Rightarrow> c))))"
  by (simp add: deployment_gate_with_def gather_def Let_def check_text_pair approver_for_def
           split: prod.splits sum.splits)

lemma demo_deploy_production:
  "first_keyword (case rt_keywords demo_routing of None \<Rightarrow> [] | Some ks \<Rightarrow> ks)
     (str_lower demo_world ''Deploy to production please'') = Some (''deploy'', Names [''tester'', ''guardian''])"
  by code_simp

lemma demo_deploy_staging:
  "first_keyword (case rt_keywords demo_routing of None \<Rightarrow> [] | Some ks \<Rightarrow> ks)
     (str_lower demo_world ''Can I deploy to staging?'') = Some (''deploy'', Names [''tester'', ''guardian''])"
  by code_simp

lemma demo_gate_production:
  "fst (deployment_gate demo_world ''API v2'' ''Production'' None)
     = Inr (demo_gate_result ''Production'')"
  by code_simp

lemma demo_gate_test:
  "fst (deployment_gate demo_world ''API v2'' ''test'' None) = Inr (demo_gate_result ''test'')"
  by code_simp


lemma demo_nobody: "get_persona_config demo_world ''nobody'' = Inr None"
  by code_simp

lemma demo_blank: "get_persona_config demo_world ''blank'' = Inr (Some blank_config)"
  by code_simp

lemma demo_sentinel: "get_persona_config demo_world ''sentinel'' = Inr (Some sentinel_config)"
  by code_simp





lemma demo_reviewer: "get_persona_config demo_world ''reviewer'' = Inr (Some reviewer_config)"
  by code_simp





lemma dict_set_fresh: "k \<notin> fst ` set d \<Longrightarrow> dict_set d k v = d @ [(k, v)]"
  by (induction d) auto

lemma team_tasks_map:
  assumes "distinct (map fst acc @ map fst ps)"
  shows "team_tasks consult ps content context acc =
           acc @ map (\<lambda>(name, prompt_suffix).
                        (name, consult name (prompt_suffix @ '': '' @ content) context)) ps"
  using assms
proof (induction ps arbitrary: acc)
  case Nil
  then show ?case by simp
next
  case (Cons p ps)
  obtain name prompt_suffix where p: "p = (name, prompt_suffix)" by (cases p)
  have fresh: "name \<notin> fst ` set acc"
    using Cons.prems by (auto simp: p)
  have "distinct (map fst (acc @ [(name, consult name (prompt_suffix @ '': '' @ content) context)])
                  @ map fst ps)"
    using Cons.prems by (auto simp: p)
  from Cons.IH [OF this] show ?case
    by (simp add: p dict_set_fresh [OF fresh])
qed

lemma team_results_map:
  assumes "distinct (map fst acc @ map fst rs)"
  shows "team_results rs acc = acc @ map (\<lambda>(name, resp). (name, team_entry resp)) rs"
  using assms
proof (induction rs arbitrary: acc)
  case Nil
  then show ?case by simp
next
  case (Cons r rs)
  obtain name resp where r: "r = (name, resp)" by (cases r)
  have fresh: "name \<notin> fst ` set acc"
    using Cons.prems by (auto simp: r)
  have entry: "(case resp of Inl e \<Rightarrow> ''Error: '' @ str_error e | Inr x \<Rightarrow> x) = team_entry resp"
    by (cases resp) auto
  have "distinct (map fst (acc @ [(name, team_entry resp)]) @ map fst rs)"
    using Cons.prems by (auto simp: r)
  from Cons.IH [OF this] show ?case
    by (simp add: r dict_set_fresh [OF fresh] entry)
qed

lemma team_tasks_keys:
  "map fst (map (\<lambda>(name, prompt_suffix). (name, g name prompt_suffix)) ps) = map fst ps"
  by (induction ps) auto

lemma team_tasks_zip:
  "zip (map fst (map (\<lambda>(name, prompt_suffix). (name, g name prompt_suffix)) ps))
       (map fst (map snd (map (\<lambda>(name, prompt_suffix). (name, g name prompt_suffix)) ps)))
     = map (\<lambda>(name, prompt_suffix). (name, fst (g name prompt_suffix))) ps"
  by (induction ps) auto

lemma team_entries_map:
  "map (\<lambda>(name, resp). (name, team_entry resp))
       (map (\<lambda>(name, prompt_suffix). (name, fst (g name prompt_suffix))) ps)
     = map (\<lambda>(name, prompt_suffix). (name, team_entry (fst (g name prompt_suffix)))) ps"
  by (induction ps) auto

lemma team_review_with_entries:
  assumes "load_personas w = Inr personas_config"
    and "distinct (map fst (team_members personas_config))"
  shows "fst (team_review_with consult w content context) =
           Inr (map (\<lambda>(name, prompt_suffix).
                       (name, team_entry (fst (consult name (prompt_suffix @ '': '' @ content) context))))
                  (team_members personas_config))"
proof -
  define ps where "ps = team_members personas_config"
  define g where "g = (\<lambda>name prompt_suffix. consult name (prompt_suffix @ '': '' @ content) context)"
  define tasks where "tasks = map (\<lambda>(name, prompt_suffix). (name, g name prompt_suffix)) ps"
  have d: "distinct (map fst ps)"
    using assms(2) by (simp add: ps_def)
  have members:
    "(case wf_personas (case wf_team_review (doc_workflows personas_config) of
                          None \<Rightarrow> \<lparr>wf_personas = None\<rparr> | Some x \<Rightarrow> x) of
        None \<Rightarrow> [] | Some ps \<Rightarrow> ps) = ps"
    by (simp add: ps_def team_members_def split: option.splits)
  have t: "team_tasks consult ps content context [] = tasks"
    using team_tasks_map [of "[]" ps consult content "context"] d
    by (simp add: tasks_def g_def)
  have "distinct (map fst (map (\<lambda>(name, prompt_suffix). (name, fst (g name prompt_suffix))) ps))"
    using d by (simp add: team_tasks_keys del: map_map)
  then have r: "team_results (zip (map fst tasks) (map fst (map snd tasks))) []
      = map (\<lambda>(name, prompt_suffix). (name, team_entry (fst (g name prompt_suffix)))) ps"
    unfolding tasks_def team_tasks_zip
    using team_results_map [of "[]"
            "map (\<lambda>(name, prompt_suffix). (name, fst (g name prompt_suffix))) ps"]
    by (simp add: team_entries_map del: map_map)
  show ?thesis
    using assms(1)
    by (simp add: team_review_with_def Let_def gather_def members t r del: map_map)
       (simp add: ps_def g_def)
qed

lemma consensus_loop_concat:
  "consensus_loop rs acc = acc @ concat (map (\<lambda>(model, resp). consensus_entry model resp) rs)"
  by (induction rs arbitrary: acc) auto

lemma consensus_entries:
  "map (\<lambda>(model, resp). consensus_entry model resp) (zip ms (map fst (map h ms)))
     = map (\<lambda>model. consensus_entry model (fst (h model))) ms"
  by (induction ms) auto

lemma join_fixed:
  "path_join p ''governance'' = p @ [''governance'']"
  "path_join p ''standards'' = p @ [''standards'']"
  "path_join p ''personas'' = p @ [''personas'']"
  "path_join p ''personas.yaml'' = p @ [''personas.yaml'']"
  "path_join p ''manifest.yaml'' = p @ [''manifest.yaml'']"
  by (simp_all add: path_join_def absolute_def components_def)

lemma join_plain: "plain name \<Longrightarrow> path_join p name = p @ components name"
  by (simp add: plain_def path_join_def)

lemma below_root: "below root root"
  by (simp add: below_def)

lemma below_append:
  assumes "below root p" and "''..'' \<notin> set cs"
  shows "below root (p @ cs)"
proof -
  from assms(1) obtain rest where p: "p = root @ rest" and rest: "''..'' \<notin> set rest"
    by (auto simp: below_def prefix_def)
  show ?thesis
    using rest assms(2) by (simp add: below_def p)
qed

lemma below_join: "below root p \<Longrightarrow> plain name \<Longrightarrow> below root (path_join p name)"
  by (simp add: join_plain below_append plain_def)

lemma resolve_same:
  assumes "\<And>q. prefix cur q \<Longrightarrow> prefix q (cur @ cs) \<Longrightarrow> fs w' q = fs w q"
    and "''..'' \<notin> set cs"
  shows "resolve w' cur cs = resolve w cur cs"
  using assms
proof (induction cs arbitrary: cur)
  case Nil
  then show ?case by (simp add: node_at_def)
next
  case (Cons c cs)
  have here: "node_at w' cur = node_at w cur"
    using Cons.prems(1) [of cur] by (simp add: node_at_def)
  have step: "resolve w' (cur @ [c]) cs = resolve w (cur @ [c]) cs"
  proof (rule Cons.IH)
    fix q
    assume "prefix (cur @ [c]) q" and "prefix q ((cur @ [c]) @ cs)"
    then show "fs w' q = fs w q"
      using Cons.prems(1) [of q] by (auto dest: append_prefixD)
  next
    show "''..'' \<notin> set cs" using Cons.prems(2) by simp
  qed
  from Cons.prems(2) have "c \<noteq> ''..''" by auto
  then show ?case by (simp add: here step)
qed

lemma lookup_same_below:
  assumes same_files: "\<And>q. prefix q root \<or> prefix root q \<Longrightarrow> fs w' q = fs w q"
    and normal_root: "''..'' \<notin> set root"
    and "below root p"
  shows "lookup w' p = lookup w p"
proof -
  from \<open>below root p\<close> obtain rest where p: "p = root @ rest" and rest: "''..'' \<notin> set rest"
    by (auto simp: below_def prefix_def)
  have "fs w' q = fs w q" if "prefix q p" for q
  proof (rule same_files)
    from that show "prefix q root \<or> prefix root q"
      unfolding p by (metis prefix_append prefix_order.dual_order.refl prefix_same_cases)
  qed
  moreover have "''..'' \<notin> set p"
    using normal_root rest by (simp add: p)
  ultimately show ?thesis
    unfolding lookup_def by (intro resolve_same) auto
qed

lemma load_yaml_same: "lookup w' p = lookup w p \<Longrightarrow> load_yaml w' p = load_yaml w p"
  by (simp add: load_yaml_def exists_def)

lemma exists_same: "lookup w' p = lookup w p \<Longrightarrow> exists w' p = exists w p"
  by (simp add: exists_def)

lemma load_governance_loop_same:
  assumes "\<And>name. name \<in> set files \<Longrightarrow>
             lookup w' (path_join dir name) = lookup w (path_join dir name)"
  shows "load_governance_loop w' dir files acc = load_governance_loop w dir files acc"
  using assms
proof (induction files arbitrary: acc)
  case Nil
  show ?case by simp
next
  case (Cons filename files)
  have here: "lookup w' (path_join dir filename) = lookup w (path_join dir filename)"
    by (rule Cons.prems) simp
  have rest: "load_governance_loop w' dir files acc' = load_governance_loop w dir files acc'"
    for acc'
    by (rule Cons.IH, rule Cons.prems) simp
  show ?case
    by (simp add: Let_def load_yaml_same [OF here] exists_same [OF here] rest)
qed

lemma load_domains_loop_same:
  assumes "\<And>name. name \<in> set files \<Longrightarrow>
             lookup w' (path_join dir name) = lookup w (path_join dir name)"
  shows "load_domains_loop w' dir files acc = load_domains_loop w dir files acc"
  using assms
proof (induction files arbitrary: acc)
  case Nil
  show ?case by simp
next
  case (Cons filename files)
  have here: "lookup w' (path_join dir filename) = lookup w (path_join dir filename)"
    by (rule Cons.prems) simp
  have rest: "load_domains_loop w' dir files acc' = load_domains_loop w dir files acc'"
    for acc'
    by (rule Cons.IH, rule Cons.prems) simp
  show ?case
    by (simp add: Let_def load_yaml_same [OF here] exists_same [OF here] rest)
qed

lemma dirs_of_root:
  "governance_dir w = find_config_root w @ [''governance'']"
  "standards_dir w = find_config_root w @ [''standards'']"
  "personas_dir w = find_config_root w @ [''personas'']"
  by (simp_all add: governance_dir_def standards_dir_def personas_dir_def get_paths_def
                    join_fixed Let_def)

lemma demo_root: "find_config_root demo_world = [''pkg'']"
  by code_simp

lemma demo_notes_root: "find_config_root demo_world_notes = find_config_root demo_world"
  by code_simp

lemma demo_project_root: "find_config_root project_world = [''home'']"
  by code_simp

lemma demo_notes_files:
  "prefix p (find_config_root demo_world) \<or> prefix (find_config_root demo_world) p
     \<Longrightarrow> fs demo_world_notes p = fs demo_world p"
  unfolding demo_root by (auto simp: demo_world_notes_def prefix_Cons)

lemma demo_roots_normal:
  "''..'' \<notin> set (find_config_root demo_world)"
  "''..'' \<notin> set (find_config_root project_world)"
  by code_simp+

lemma demo_names_plain:
  "list_all plain [''security.yaml'', ''missing.yaml'']"
  "plain ''owasp''"
  "list_all plain (manifest_files demo_world ''owasp'')"
  "list_all plain (manifest_files project_world ''owasp'')"
  "list_all plain []"
  by code_simp+

lemma demo_empty_file:
  "lookup demo_world [''pkg'', ''empty.yaml''] = None
   \<or> lookup demo_world [''pkg'', ''empty.yaml''] = Some (File (Parsed None))"
  by code_simp

lemma demo_project_missing:
  "lookup project_world [''home'', ''personas'', ''personas.yaml''] = None
   \<or> lookup project_world [''home'', ''personas'', ''personas.yaml''] = Some (File (Parsed None))"
  by code_simp

lemma demo_loaded: "load_personas demo_world = Inr demo_personas"
  by code_simp

lemma demo_team_distinct: "distinct (map fst (team_members demo_personas))"
  by code_simp

lemma demo_reviewer_prompt:
  "build_system_prompt demo_world ''reviewer''
     = Inr (prompt_header ''Reviewer'' ''code review'' ''- thorough'' @ response_style)"
  by code_simp

section \<open>Routing\<close>



text \<open>
  Claim C8, as stated, says that a single persona name is always returned for a rule that
  maps its keyword to a list.  It fails for the empty list: neither subscript has an
  element to return, and \<open>route_question\<close> raises \<open>IndexError\<close>.
\<close>

theorem route_question_empty_list:
  "get_routing_rules demo_world = Inr demo_routing
   \<and> first_keyword (case rt_keywords demo_routing of None \<Rightarrow> [] | Some ks \<Rightarrow> ks)
         (str_lower demo_world ''Rollback the release'') = Some (''rollback'', Names [])
   \<and> route_question demo_world ''Rollback the release''
        = Inl (IndexError ''list index out of range'')"
  by code_simp

text \<open>
  Claim C8, amended.  When the first matching rule maps its keyword to a non-empty list of
  personas, \<open>route_question\<close> returns one name: the last element of the list if the
  lower-cased question contains \<open>production\<close> or \<open>prod\<close>, the first element otherwise.
  When the list is empty it raises \<open>IndexError\<close> and returns no name.
\<close>

theorem route_question_list_target:
  assumes "get_routing_rules w = Inr rules"
    and "first_keyword (case rt_keywords rules of None \<Rightarrow> [] | Some ks \<Rightarrow> ks)
           (str_lower w question) = Some (keyword, Names ps)"
  shows "route_question w question =
           (if ps = [] then Inl (IndexError ''list index out of range'')
            else Inr (if sublist ''production'' (str_lower w question)
                         \<or> sublist ''prod'' (str_lower w question)
                      then last ps else hd ps))"
proof (cases ps)
  case Nil
  with assms show ?thesis
    by (simp add: route_question_def route_loop_find Let_def)
next
  case (Cons x xs)
  with assms show ?thesis
    by (simp add: route_question_def route_loop_find Let_def)
qed

theorem route_question_list_target_witness:
  "route_question demo_world ''Deploy to production please'' = Inr ''guardian''
   \<and> route_question demo_world ''Can I deploy to staging?'' = Inr ''tester''"
proof -
  have a: "route_question demo_world ''Deploy to production please'' = Inr ''guardian''"
    unfolding route_question_list_target [OF demo_rules demo_deploy_production] by code_simp
  have b: "route_question demo_world ''Can I deploy to staging?'' = Inr ''tester''"
    unfolding route_question_list_target [OF demo_rules demo_deploy_staging] by code_simp
  show ?thesis using a b by simp
qed

section \<open>The deployment gate\<close>

text \<open>
  Claim C2.  Whenever \<open>deployment_gate\<close> returns a record, its approver is a function of the
  environment alone: \<open>guardian\<close> exactly when the lower-cased environment is \<open>production\<close>,
  \<open>tester\<close> otherwise; and the record carries the environment as it was given.  This
  approver is the persona the approval is addressed to, whatever the plan, the context and
  the answers of the checks.
\<close>

theorem deployment_gate_approver:
  assumes "fst (deployment_gate w plan environment context) = Inr r"
  shows "dg_approver r = approver_for w environment
       \<and> dg_environment r = environment
       \<and> (dg_approver r = ''guardian'' \<longleftrightarrow> str_lower w environment = ''production'')
       \<and> (dg_approver r = ''tester'' \<longleftrightarrow> str_lower w environment \<noteq> ''production'')
       \<and> map fst (snd (deployment_gate_with (recording answer) w plan environment context))
           = [''auditor'', ''sentinel'', approver_for w environment]"
  using gate_with_result [OF assms [unfolded deployment_gate_def]]
  by (simp add: approver_for_def gate_with_calls recording_def)

theorem deployment_gate_approver_witness:
  "fst (deployment_gate demo_world ''API v2'' ''Production'' None)
     = Inr (demo_gate_result ''Production'')
   \<and> dg_approver (demo_gate_result ''Production'') = ''guardian''
   \<and> dg_environment (demo_gate_result ''Production'') = ''Production''
   \<and> fst (deployment_gate demo_world ''API v2'' ''test'' None) = Inr (demo_gate_result ''test'')
   \<and> dg_approver (demo_gate_result ''test'') = ''tester''
   \<and> dg_environment (demo_gate_result ''test'') = ''test''"
proof -
  have p: "str_lower demo_world ''Production'' = ''production''" by code_simp
  have t: "str_lower demo_world ''test'' \<noteq> ''production''" by code_simp
  from deployment_gate_approver [OF demo_gate_production] p
  have a: "dg_approver (demo_gate_result ''Production'') = ''guardian''
         \<and> dg_environment (demo_gate_result ''Production'') = ''Production''"
    by blast
  from deployment_gate_approver [OF demo_gate_test] t
  have b: "dg_approver (demo_gate_result ''test'') = ''tester''
         \<and> dg_environment (demo_gate_result ''test'') = ''test''"
    by blast
  from a b demo_gate_production demo_gate_test show ?thesis by blast
qed

text \<open>
  Claim C4.  The deployment gate has two phases.  With a consultation that records whom it
  is addressed to, the calls are exactly: the cost check to \<open>auditor\<close>, the security check to
  \<open>sentinel\<close>, then the one approval, whose context holds the text of both check results.
  With the real consultation, the requests sent are those of these three consultations,
  in this order.
\<close>

theorem deployment_gate_two_phases:
  "snd (deployment_gate_with (recording answer) w plan environment context) =
     [(''auditor'', ''Cost check for deployment: '' @ plan, context),
      (''sentinel'', ''Security check for deployment: '' @ plan, context),
      (approver_for w environment,
       ''Approve deployment to '' @ environment @ ''?'' @ NL @ NL @ ''Plan: '' @ plan,
       Some (''Cost: ''
             @ result_text (answer ''auditor'' (''Cost check for deployment: '' @ plan) context)
             @ NL @ ''Security: ''
             @ result_text (answer ''sentinel'' (''Security check for deployment: '' @ plan) context)
             @ NL @ (case context of None \<Rightarrow> [] | Some c \<Rightarrow> c)))]
   \<and> snd (deployment_gate w plan environment context) =
       snd (consult_persona w ''auditor'' (''Cost check for deployment: '' @ plan) context)
       @ snd (consult_persona w ''sentinel'' (''Security check for deployment: '' @ plan) context)
       @ snd (consult_persona w (approver_for w environment)
               (''Approve deployment to '' @ environment @ ''?'' @ NL @ NL @ ''Plan: '' @ plan)
               (Some (''Cost: ''
                  @ result_text (fst (consult_persona w ''auditor''
                                        (''Cost check for deployment: '' @ plan) context))
                  @ NL @ ''Security: ''
                  @ result_text (fst (consult_persona w ''sentinel''
                                        (''Security check for deployment: '' @ plan) context))
                  @ NL @ (case context of None \<Rightarrow> [] | Some c \<Rightarrow> c))))"
  by (simp add: gate_with_calls deployment_gate_def recording_def)

theorem deployment_gate_two_phases_witness:
  "snd (deployment_gate_with (recording demo_answer) demo_world ''API v2'' ''production''
          (Some ''Lambda''))
     = [(''auditor'', ''Cost check for deployment: API v2'', Some ''Lambda''),
        (''sentinel'', ''Security check for deployment: API v2'', Some ''Lambda''),
        (''guardian'', ''Approve deployment to production?'' @ NL @ NL @ ''Plan: API v2'',
         Some (''Cost: OK'' @ NL @ ''Security: API error'' @ NL @ ''Lambda''))]"
  unfolding deployment_gate_two_phases [of demo_answer demo_world "''API v2''" "''production''"
      "Some ''Lambda''", THEN conjunct1]
  by code_simp

section \<open>The language-model query\<close>



section \<open>Unknown personas\<close>

text \<open>
  Claim C10.  A persona name has no configuration when the lookup yields nothing, or an
  empty mapping (the code's test \<^verbatim>\<open>not config\<close>).  For such a name \<open>build_system_prompt\<close>
  and \<open>consult_persona\<close> raise the \<open>ValueError\<close> that names the unknown persona, and no
  request is sent; for a configured persona neither raises this error.
\<close>

theorem unknown_persona_error:
  assumes "get_persona_config w persona_name = Inr config"
  shows "if not_config config
         then build_system_prompt w persona_name = Inl (unknown_persona persona_name)
            \<and> consult_persona w persona_name question context
                = (Inl (unknown_persona persona_name), [])
         else build_system_prompt w persona_name \<noteq> Inl (unknown_persona persona_name)
            \<and> fst (consult_persona w persona_name question context)
                \<noteq> Inl (unknown_persona persona_name)"
proof (cases "not_config config")
  case True
  then have "consult_persona w persona_name question context
               = (Inl (unknown_persona persona_name), [])"
    using assms by (cases config) (simp_all add: consult_persona_def)
  with True build_unknown [OF assms True] show ?thesis by simp
next
  case False
  then obtain c where c: "config = Some c" "\<not> config_empty c"
    by (cases config) auto
  note known = assms [unfolded c(1)]
  have b: "build_system_prompt w persona_name \<noteq> Inl (unknown_persona persona_name)"
    using build_known_no_value_error [OF known c(2)] by (simp add: unknown_persona_def)
  have "fst (consult_persona w persona_name question context)
          \<noteq> Inl (unknown_persona persona_name)"
  proof (cases "build_system_prompt w persona_name")
    case (Inl e)
    then show ?thesis using known c(2) b by (simp add: consult_persona_def)
  next
    case (Inr sp)
    obtain r where "fst (consensus_review w persona_name question context) = Inr r"
      using consensus_review_returns [OF known Inr] by blast
    then show ?thesis
      using known c(2) Inr query_llm_not_unknown
      by (simp add: consult_persona_def Let_def)
  qed
  with False b show ?thesis by simp
qed

theorem unknown_persona_error_witness:
  "build_system_prompt demo_world ''nobody'' = Inl (ValueError ''Unknown persona: nobody'')
   \<and> consult_persona demo_world ''nobody'' ''Hello?'' None
       = (Inl (ValueError ''Unknown persona: nobody''), [])
   \<and> build_system_prompt demo_world ''sentinel'' \<noteq> Inl (ValueError ''Unknown persona: sentinel'')
   \<and> fst (consult_persona demo_world ''sentinel'' ''Is this safe?'' None)
       \<noteq> Inl (ValueError ''Unknown persona: sentinel'')"
proof -
  have n: "not_config None" by simp
  have s: "\<not> not_config (Some sentinel_config)" by code_simp
  from unknown_persona_error [OF demo_nobody, of "''Hello?''" None] n
  have a: "build_system_prompt demo_world ''nobody'' = Inl (unknown_persona ''nobody'')
         \<and> consult_persona demo_world ''nobody'' ''Hello?'' None
             = (Inl (unknown_persona ''nobody''), [])"
    by simp
  from unknown_persona_error [OF demo_sentinel, of "''Is this safe?''" None] s
  have b: "build_system_prompt demo_world ''sentinel'' \<noteq> Inl (unknown_persona ''sentinel'')
         \<and> fst (consult_persona demo_world ''sentinel'' ''Is this safe?'' None)
             \<noteq> Inl (unknown_persona ''sentinel'')"
    by simp
  from a b show ?thesis by (simp add: unknown_persona_def)
qed

section \<open>Standards in the prompt\<close>



section \<open>The system prompt\<close>



section \<open>Failure isolation\<close>

text \<open>
  Claim C3.  In \<open>team_review\<close> (when the personas document loads) and in the consensus review
  (when the persona's configuration and system prompt are there), the tasks are isolated:
  the result always comes back, with one entry per persona, respectively per model, in
  order, and each entry is made from the outcome of that task alone: the response as it
  is, or the error as a string (\<open>team_entry\<close>, \<open>consensus_entry\<close>).  No exception of a task
  escapes.
\<close>

theorem failure_isolation:
  assumes "load_personas w = Inr personas_config"
    and "distinct (map fst (team_members personas_config))"
    and "get_persona_config w persona_name = Inr (Some config)"
    and "build_system_prompt w persona_name = Inr system_prompt"
  shows "fst (team_review w content context) =
           Inr (map (\<lambda>(name, prompt_suffix).
                       (name, team_entry (fst (consult_persona w name
                                                 (prompt_suffix @ '': '' @ content) context))))
                  (team_members personas_config))
       \<and> fst (consensus_review w persona_name question context) =
           Inr ((case pc_emoji config of None \<Rightarrow> eye_emoji | Some e \<Rightarrow> e)
                @ '' Peer Review (Multi-LLM Consensus)'' @ NL @ NL
                @ concat (map (\<lambda>model. consensus_entry model
                                 (fst (query_llm w model system_prompt question context)))
                            (case pc_models config of None \<Rightarrow> default_models | Some ms \<Rightarrow> ms))
                @ ''---'' @ NL @ ''*Consensus review from multiple perspectives*'')"
proof -
  have team: "fst (team_review w content context) =
           Inr (map (\<lambda>(name, prompt_suffix).
                       (name, team_entry (fst (consult_persona w name
                                                 (prompt_suffix @ '': '' @ content) context))))
                  (team_members personas_config))"
    unfolding team_review_def by (rule team_review_with_entries [OF assms(1,2)])
  have cons: "fst (consensus_review w persona_name question context) =
           Inr ((case pc_emoji config of None \<Rightarrow> eye_emoji | Some e \<Rightarrow> e)
                @ '' Peer Review (Multi-LLM Consensus)'' @ NL @ NL
                @ concat (map (\<lambda>model. consensus_entry model
                                 (fst (query_llm w model system_prompt question context)))
                            (case pc_models config of None \<Rightarrow> default_models | Some ms \<Rightarrow> ms))
                @ ''---'' @ NL @ ''*Consensus review from multiple perspectives*'')"
    using assms(3,4)
    by (simp add: consensus_review_def Let_def gather_def consensus_loop_concat
                  consensus_entries
             del: map_map)
  from team cons show ?thesis by blast
qed

theorem failure_isolation_witness:
  "fst (team_review demo_world ''New payment API'' None)
     = Inr [(''auditor'', ''Looks fine''), (''sentinel'', ''Looks fine''),
            (''ghost'', ''Error: Unknown persona: ghost'')]
   \<and> fst (consensus_review demo_world ''reviewer'' ''Review this code'' None)
     = Inr (eye_emoji @ '' Peer Review (Multi-LLM Consensus)'' @ NL @ NL
            @ ''**claude**: Error '' @ em_dash @ '' OpenRouter API error 503: overloaded'' @ NL @ NL
            @ ''**gpt-4o**:'' @ NL @ ''Looks fine'' @ NL @ NL
            @ ''---'' @ NL @ ''*Consensus review from multiple perspectives*'')"
proof -
  note isolated = failure_isolation [OF demo_loaded demo_team_distinct demo_reviewer
      demo_reviewer_prompt, of "''New payment API''" None "''Review this code''"]
  have a: "fst (team_review demo_world ''New payment API'' None)
     = Inr [(''auditor'', ''Looks fine''), (''sentinel'', ''Looks fine''),
            (''ghost'', ''Error: Unknown persona: ghost'')]"
    unfolding isolated [THEN conjunct1] by code_simp
  have b: "fst (consensus_review demo_world ''reviewer'' ''Review this code'' None)
     = Inr (eye_emoji @ '' Peer Review (Multi-LLM Consensus)'' @ NL @ NL
            @ ''**claude**: Error '' @ em_dash @ '' OpenRouter API error 503: overloaded'' @ NL @ NL
            @ ''**gpt-4o**:'' @ NL @ ''Looks fine'' @ NL @ NL
            @ ''---'' @ NL @ ''*Consensus review from multiple perspectives*'')"
    unfolding isolated [THEN conjunct2] by code_simp
  from a b show ?thesis by blast
qed

section \<open>The configuration root\<close>

text \<open>
  Claim C7, as stated, says that all persona, governance and standard documents are read
  relative to the root.  It fails for a name that is an absolute path or steps through
  \<open>..\<close>: in the project installation, whose root is \<open>/home\<close>, the governance files
  \<open>/etc/policy.yaml\<close> and \<open>../../etc/policy.yaml\<close> are loaded from \<open>/etc\<close>, and in the bundled
  installation, whose root is \<open>/pkg\<close>, so are the standard \<open>/etc/std\<close> and the domain file
  that the manifest of the standard \<open>local\<close> lists as \<open>../../../etc/policy.yaml\<close>.  Deleting
  \<open>/etc/policy.yaml\<close>, which leaves the root and everything below it as it was, changes
  what is loaded.
\<close>

theorem config_root_escape:
  "find_config_root project_world = [''home'']
   \<and> find_config_root (without_policy project_world) = [''home'']
   \<and> fs (without_policy project_world) = (fs project_world)([''etc'', ''policy.yaml''] := None)
   \<and> path_join (governance_dir project_world) ''/etc/policy.yaml'' = [''etc'', ''policy.yaml'']
   \<and> \<not> below [''home''] [''etc'', ''policy.yaml'']
   \<and> load_governance project_world [''/etc/policy.yaml'']
        = Inr [(''/etc/policy.yaml'', demo_policy)]
   \<and> load_governance (without_policy project_world) [''/etc/policy.yaml''] = Inr []
   \<and> load_governance project_world [''../../etc/policy.yaml'']
        = Inr [(''../../etc/policy.yaml'', demo_policy)]
   \<and> load_governance (without_policy project_world) [''../../etc/policy.yaml''] = Inr []
   \<and> find_config_root demo_world = [''pkg'']
   \<and> find_config_root (without_policy demo_world) = [''pkg'']
   \<and> fs (without_policy demo_world) = (fs demo_world)([''etc'', ''policy.yaml''] := None)
   \<and> load_standard demo_world ''/etc/std''
        = Inr (Some \<lparr>st_manifest = stray_manifest,
                       st_domains = [(''../../../etc/policy'', demo_policy)]\<rparr>)
   \<and> load_standard (without_policy demo_world) ''/etc/std''
        = Inr (Some \<lparr>st_manifest = stray_manifest, st_domains = []\<rparr>)
   \<and> load_standard demo_world ''local''
        = Inr (Some \<lparr>st_manifest = stray_manifest,
                       st_domains = [(''../../../etc/policy'', demo_policy)]\<rparr>)
   \<and> load_standard (without_policy demo_world) ''local''
        = Inr (Some \<lparr>st_manifest = stray_manifest, st_domains = []\<rparr>)"
proof -
  have project: "find_config_root project_world = [''home'']"
    "find_config_root (without_policy project_world) = [''home'']"
    "path_join (governance_dir project_world) ''/etc/policy.yaml'' = [''etc'', ''policy.yaml'']"
    "\<not> below [''home''] [''etc'', ''policy.yaml'']"
    by code_simp+
  have bundled: "find_config_root demo_world = [''pkg'']"
    "find_config_root (without_policy demo_world) = [''pkg'']"
    by code_simp+
  have deleted: "fs (without_policy w) = (fs w)([''etc'', ''policy.yaml''] := None)" for w
    by (simp add: without_policy_def)
  have absolute_name:
    "load_governance project_world [''/etc/policy.yaml'']
       = Inr [(''/etc/policy.yaml'', demo_policy)]"
    "load_governance (without_policy project_world) [''/etc/policy.yaml''] = Inr []"
    by code_simp+
  have parent_name:
    "load_governance project_world [''../../etc/policy.yaml'']
       = Inr [(''../../etc/policy.yaml'', demo_policy)]"
    "load_governance (without_policy project_world) [''../../etc/policy.yaml''] = Inr []"
    by code_simp+
  have standard_id:
    "load_standard demo_world ''/etc/std''
       = Inr (Some \<lparr>st_manifest = stray_manifest,
                      st_domains = [(''../../../etc/policy'', demo_policy)]\<rparr>)"
    "load_standard (without_policy demo_world) ''/etc/std''
       = Inr (Some \<lparr>st_manifest = stray_manifest, st_domains = []\<rparr>)"
    by code_simp+
  have manifest_entry:
    "load_standard demo_world ''local''
       = Inr (Some \<lparr>st_manifest = stray_manifest,
                      st_domains = [(''../../../etc/policy'', demo_policy)]\<rparr>)"
    "load_standard (without_policy demo_world) ''local''
       = Inr (Some \<lparr>st_manifest = stray_manifest, st_domains = []\<rparr>)"
    by code_simp+
  from project bundled deleted absolute_name parent_name standard_id manifest_entry
  show ?thesis by simp
qed

text \<open>
  Claim C7, amended.  The root is the current working directory if it has a \<open>governance\<close>
  subdirectory and the package directory otherwise; the governance, standards and personas
  directories lie under it.  The personas document is read below the root, and so is every
  governance or standard document whose name (the governance file name, the standard id,
  each file entry of the manifest) is a relative path without \<open>..\<close>: an installation
  with the same root and the same files on the way to the root and below it loads the
  same documents.  (The root is taken as the system reports it, without \<open>..\<close>.)  A file
  that is missing, or empty, loads as the empty document.
\<close>

theorem config_root_resolution:
  assumes same_root: "find_config_root w' = find_config_root w"
    and same_files: "\<And>p. prefix p (find_config_root w) \<or> prefix (find_config_root w) p
                        \<Longrightarrow> fs w' p = fs w p"
    and normal_root: "''..'' \<notin> set (find_config_root w)"
    and plain_files: "list_all plain files"
    and plain_standard: "plain standard_id" "list_all plain (manifest_files w standard_id)"
    and absent: "lookup w q = None \<or> lookup w q = Some (File (Parsed None))"
  shows "find_config_root w =
           (if lookup w (cwd w @ [''governance'']) = Some Dir then cwd w else pkg_dir w)
       \<and> get_paths w =
           (find_config_root w, find_config_root w @ [''governance''],
            find_config_root w @ [''standards''], find_config_root w @ [''personas''])
       \<and> load_personas w = load_yaml w (find_config_root w @ [''personas'', ''personas.yaml''])
       \<and> load_personas w' = load_personas w
       \<and> list_all (\<lambda>name. below (find_config_root w) (path_join (governance_dir w) name)) files
       \<and> load_governance w' files = load_governance w files
       \<and> below (find_config_root w) (path_join (standards_dir w) standard_id)
       \<and> load_standard w' standard_id = load_standard w standard_id
       \<and> load_yaml w q = Inr EmptyDoc"
proof -
  let ?root = "find_config_root w"
  have root: "?root = (if lookup w (cwd w @ [''governance'']) = Some Dir then cwd w else pkg_dir w)"
    by (simp add: find_config_root_def is_dir_def join_fixed)
  have paths: "get_paths w =
           (?root, ?root @ [''governance''], ?root @ [''standards''], ?root @ [''personas''])"
    by (simp add: get_paths_def Let_def join_fixed)
  have same: "lookup w' p = lookup w p" if "below ?root p" for p
    using same_files normal_root that by (rule lookup_same_below)
  have dirs: "governance_dir w' = governance_dir w" "standards_dir w' = standards_dir w"
             "personas_dir w' = personas_dir w"
    by (simp_all add: dirs_of_root same_root)
  have b_gov: "below ?root (governance_dir w)" and b_std: "below ?root (standards_dir w)"
    and b_per: "below ?root (personas_dir w)"
    by (simp_all add: dirs_of_root below_append below_root)
  have personas_path: "load_personas w = load_yaml w (?root @ [''personas'', ''personas.yaml''])"
    by (simp add: load_personas_def dirs_of_root join_fixed)
  have personas: "load_personas w' = load_personas w"
    unfolding load_personas_def dirs
    by (rule load_yaml_same, rule same) (simp add: join_fixed below_append b_per)
  have gov_below: "below ?root (path_join (governance_dir w) name)" if "name \<in> set files" for name
    using plain_files that b_gov by (auto simp: list_all_iff intro: below_join)
  have governance: "load_governance w' files = load_governance w files"
    unfolding load_governance_def dirs
    by (rule load_governance_loop_same) (rule same, rule gov_below)
  let ?dir = "path_join (standards_dir w) standard_id"
  have b_dir: "below ?root ?dir"
    using b_std plain_standard(1) by (rule below_join)
  have standard: "load_standard w' standard_id = load_standard w standard_id"
  proof -
    have d: "exists w' ?dir = exists w ?dir"
      by (rule exists_same, rule same) (rule b_dir)
    have m: "load_yaml w' (path_join ?dir ''manifest.yaml'') = load_yaml w (path_join ?dir ''manifest.yaml'')"
      by (rule load_yaml_same, rule same) (simp add: join_fixed below_append b_dir)
    have loops: "load_domains_loop w' ?dir (manifest_files w standard_id) []
                   = load_domains_loop w ?dir (manifest_files w standard_id) []"
    proof (rule load_domains_loop_same, rule same)
      fix name assume "name \<in> set (manifest_files w standard_id)"
      then have "plain name" using plain_standard(2) by (simp add: list_all_iff)
      with b_dir show "below ?root (path_join ?dir name)" by (rule below_join)
    qed
    show ?thesis
    proof (cases "load_yaml w (path_join ?dir ''manifest.yaml'')")
      case (Inl e)
      then show ?thesis by (simp add: load_standard_def dirs Let_def d m)
    next
      case (Inr manifest)
      then have files: "manifest_files w standard_id =
          (case sm_files (doc_standard manifest) of None \<Rightarrow> [] | Some fl \<Rightarrow> fl)"
        by (simp add: manifest_files_def)
      show ?thesis
        using loops by (simp add: load_standard_def dirs Let_def d m Inr files)
    qed
  qed
  have empty: "load_yaml w q = Inr EmptyDoc"
    using absent by (auto simp: load_yaml_def exists_def)
  from gov_below have gov_all:
    "list_all (\<lambda>name. below ?root (path_join (governance_dir w) name)) files"
    by (simp add: list_all_iff)
  from root paths personas_path personas gov_all governance b_dir standard empty show ?thesis
    by blast
qed

theorem config_root_resolution_witness:
  "find_config_root demo_world = [''pkg'']
   \<and> load_personas demo_world_notes = load_personas demo_world
   \<and> load_personas demo_world = Inr demo_personas
   \<and> below [''pkg''] (path_join (governance_dir demo_world) ''security.yaml'')
   \<and> load_governance demo_world_notes [''security.yaml'', ''missing.yaml'']
        = load_governance demo_world [''security.yaml'', ''missing.yaml'']
   \<and> load_governance demo_world [''security.yaml'', ''missing.yaml'']
        = Inr [(''security.yaml'', demo_security)]
   \<and> load_standard demo_world_notes ''owasp'' = load_standard demo_world ''owasp''
   \<and> load_yaml demo_world [''pkg'', ''empty.yaml''] = Inr EmptyDoc
   \<and> find_config_root project_world = [''home'']
   \<and> get_paths project_world =
        ([''home''], [''home'', ''governance''], [''home'', ''standards''], [''home'', ''personas''])
   \<and> load_personas project_world = Inr EmptyDoc"
proof -
  note bundled = config_root_resolution [of demo_world_notes demo_world
      "[''security.yaml'', ''missing.yaml'']" "''owasp''" "[''pkg'', ''empty.yaml'']",
      OF demo_notes_root demo_notes_files demo_roots_normal(1) demo_names_plain(1,2,3)
         demo_empty_file]
  note project = config_root_resolution [of project_world project_world
      "[]" "''owasp''" "[''home'', ''personas'', ''personas.yaml'']",
      OF refl refl demo_roots_normal(2) demo_names_plain(5,2,4) demo_project_missing]
  have p: "load_personas demo_world = Inr demo_personas" by code_simp
  have g: "load_governance demo_world [''security.yaml'', ''missing.yaml'']
             = Inr [(''security.yaml'', demo_security)]" by code_simp
  from bundled [THEN conjunct2] project [THEN conjunct2] p g show ?thesis
    by (simp add: demo_root demo_project_root)
qed

end
